theory Spec2Isabelle
  imports Complex_Main "HOL-Library.AList" "HOL-Library.Log_Nat"
begin

section \<open>Python values and exceptions\<close>

text \<open>
  The two modules under verification are \<^verbatim>\<open>scripts/confidence_engine.py\<close> and
  \<^verbatim>\<open>scripts/hybrid_playback_decider.py\<close>. Exceptions are values of \<open>pyexn\<close>; a
  function that can raise returns \<open>pyexn + 'a\<close>, with \<open>Inl\<close> the exception.
\<close>

datatype pyexn =
  TypeError | ValueError | KeyError | IndexError | OverflowError | FileNotFoundError | OtherError

text \<open>Running one fallible step after another: the first exception ends the run.\<close>

definition and_then :: "pyexn + 'a \<Rightarrow> ('a \<Rightarrow> pyexn + 'b) \<Rightarrow> pyexn + 'b" where
  "and_then r f = (case r of Inl e \<Rightarrow> Inl e | Inr v \<Rightarrow> f v)"

section \<open>Double-precision floats\<close>

text \<open>
  A Python float is an IEEE 754 double. A finite double is carried by the real number it
  denotes; every arithmetic operation computes the exact result and rounds it to the
  nearest double, a tie going to the neighbour with an even significand. NaN and the
  infinities are outside the model: on finite arguments no operation of the two modules
  produces them.
\<close>

definition round_half_even :: "real \<Rightarrow> int" where
  "round_half_even y =
     (let f = \<lfloor>y\<rfloor>; r = y - of_int f
      in if r < 1/2 then f else if 1/2 < r then f + 1 else if even f then f else f + 1)"

text \<open>The binary exponent of a positive number: \<open>2 powi expo x \<le> x < 2 powi (expo x + 1)\<close>.\<close>

definition expo :: "real \<Rightarrow> int" where
  "expo x = (if 1 \<le> x then bitlen \<lfloor>x\<rfloor> - 1 else - bitlen (\<lceil>1 / x\<rceil> - 1))"

text \<open>
  Rounding to 53 significant bits; below \<open>2 powi (-1022)\<close> the spacing of the doubles
  stays \<open>2 powi (-1074)\<close> (subnormal numbers).
\<close>

definition round_to_double :: "real \<Rightarrow> real" where
  "round_to_double x =
     (let q = max (expo \<bar>x\<bar>) (- 1022) - 52
      in of_int (round_half_even (x / 2 powi q)) * 2 powi q)"

definition fadd :: "real \<Rightarrow> real \<Rightarrow> real" where
  "fadd x y = round_to_double (x + y)"

definition fsub :: "real \<Rightarrow> real \<Rightarrow> real" where
  "fsub x y = round_to_double (x - y)"

definition fmul :: "real \<Rightarrow> real \<Rightarrow> real" where
  "fmul x y = round_to_double (x * y)"

definition fdiv :: "real \<Rightarrow> real \<Rightarrow> real" where
  "fdiv x y = round_to_double (x / y)"

text \<open>
  The builtin \<^verbatim>\<open>round(x, n)\<close> on a float: the exact value of \<open>x\<close> is rounded to
  \<open>n\<close> decimals, a tie going to the even neighbour, and the decimal obtained is
  converted to the nearest double.
\<close>

definition py_round :: "real \<Rightarrow> nat \<Rightarrow> real" where
  "py_round x n = round_to_double (of_int (round_half_even (x * 10 ^ n)) / 10 ^ n)"

section \<open>Argument objects\<close>

text \<open>
  Annotations are not enforced at run time, so a caller can pass any object. \<open>pyobj\<close>
  holds the objects that matter here: \<^verbatim>\<open>None\<close>, a float, an int (unbounded), a string.
\<close>

datatype pyobj = ObjNone | ObjFloat real | ObjInt int | ObjStr string

text \<open>
  Converting an int to a double rounds it; an int too large for a double raises
  \<^verbatim>\<open>OverflowError\<close>.
\<close>

definition float_of_int :: "int \<Rightarrow> pyexn + real" where
  "float_of_int i =
     (let r = round_to_double (of_int i)
      in if 2 ^ 1024 \<le> \<bar>r\<bar> then Inl OverflowError else Inr r)"

text \<open>
  The builtin \<^verbatim>\<open>float(x)\<close>: \<^verbatim>\<open>TypeError\<close> on \<^verbatim>\<open>None\<close>, the identity on a
  float, the conversion of an int, and on a string the interpreter's number grammar,
  which is taken as the parameter \<open>parse\<close> (\<open>None\<close> where the interpreter raises
  \<^verbatim>\<open>ValueError\<close>).
\<close>

fun py_float :: "(string \<Rightarrow> real option) \<Rightarrow> pyobj \<Rightarrow> pyexn + real" where
  "py_float parse ObjNone = Inl TypeError"
| "py_float parse (ObjFloat r) = Inr r"
| "py_float parse (ObjInt i) = float_of_int i"
| "py_float parse (ObjStr s) = (case parse s of None \<Rightarrow> Inl ValueError | Some r \<Rightarrow> Inr r)"

text \<open>
  An operand of float arithmetic (\<^verbatim>\<open>x - 8.0\<close>, \<^verbatim>\<open>x / 10.0\<close>): a float as it is, an int
  converted, anything else a \<^verbatim>\<open>TypeError\<close>.
\<close>

fun float_operand :: "pyobj \<Rightarrow> pyexn + real" where
  "float_operand (ObjFloat r) = Inr r"
| "float_operand (ObjInt i) = float_of_int i"
| "float_operand ObjNone = Inl TypeError"
| "float_operand (ObjStr s) = Inl TypeError"

text \<open>
  An operand of an order comparison with an int literal (\<^verbatim>\<open>x <= 0\<close>, \<^verbatim>\<open>x >= 3\<close>):
  numbers are compared by their exact values, anything else raises \<^verbatim>\<open>TypeError\<close>.
\<close>

fun number_value :: "pyobj \<Rightarrow> pyexn + real" where
  "number_value (ObjFloat r) = Inr r"
| "number_value (ObjInt i) = Inr (of_int i)"
| "number_value ObjNone = Inl TypeError"
| "number_value (ObjStr s) = Inl TypeError"

text \<open>
  The values of the annotated type of the two optional scores, \<^verbatim>\<open>Optional[float]\<close>,
  and the strings that \<^verbatim>\<open>_safe_float\<close> also accepts.
\<close>

datatype pyval = PyNone | PyFloat real | PyStr string

fun obj_of :: "pyval \<Rightarrow> pyobj" where
  "obj_of PyNone = ObjNone"
| "obj_of (PyFloat r) = ObjFloat r"
| "obj_of (PyStr s) = ObjStr s"

fun obj_of_option :: "real option \<Rightarrow> pyobj" where
  "obj_of_option None = ObjNone"
| "obj_of_option (Some r) = ObjFloat r"

section \<open>The confidence engine\<close>

text \<open>\<^verbatim>\<open>def clamp(x, lo=0.0, hi=1.0): return max(lo, min(x, hi))\<close>\<close>

definition clamp :: "real \<Rightarrow> real \<Rightarrow> real \<Rightarrow> real" where
  "clamp x lo hi = max lo (min x hi)"

abbreviation clamp01 :: "real \<Rightarrow> real" where
  "clamp01 x \<equiv> clamp x 0 1"

text \<open>
  \<^verbatim>\<open>_safe_float\<close>: \<^verbatim>\<open>None\<close> gives the default; \<^verbatim>\<open>TypeError\<close> and
  \<^verbatim>\<open>ValueError\<close> from the conversion are caught, any other exception propagates.
\<close>

definition safe_float :: "(string \<Rightarrow> real option) \<Rightarrow> pyobj \<Rightarrow> real \<Rightarrow> pyexn + real" where
  "safe_float parse x dflt =
     (if x = ObjNone then Inr dflt
      else case py_float parse x of
             Inr r \<Rightarrow> Inr r
           | Inl TypeError \<Rightarrow> Inr dflt
           | Inl ValueError \<Rightarrow> Inr dflt
           | Inl e \<Rightarrow> Inl e)"

text \<open>Line 37: \<^verbatim>\<open>duration_score = clamp((duration_s - 8.0) / 20.0)\<close>\<close>

definition duration_score :: "pyobj \<Rightarrow> pyexn + real" where
  "duration_score duration_s =
     and_then (float_operand duration_s) (\<lambda>d. Inr (clamp01 (fdiv (fsub d 8) 20)))"

text \<open>Lines 41 to 48; the literals 0.4, 0.3 and 0.7 are the doubles nearest to them.\<close>

definition snr_score :: "pyobj \<Rightarrow> pyexn + real" where
  "snr_score snr_db =
     (if snr_db = ObjNone then Inr (round_to_double (4/10))
      else and_then (number_value snr_db) (\<lambda>s.
        if s \<le> 0 then Inr (round_to_double (3/10))
        else if s < 10 then
          and_then (float_operand snr_db) (\<lambda>f.
            Inr (fadd (round_to_double (3/10)) (fmul (fdiv f 10) (round_to_double (4/10)))))
        else Inr (round_to_double (7/10))))"

text \<open>Lines 60 to 67.\<close>

definition history_score :: "pyobj \<Rightarrow> pyexn + real" where
  "history_score history_count =
     and_then (number_value history_count) (\<lambda>h.
       Inr (if 3 \<le> h then 1
            else if h = 2 then round_to_double (7/10)
            else if h = 1 then round_to_double (4/10)
            else round_to_double (2/10)))"

text \<open>Lines 70 to 76: the sum is evaluated from left to right, each product first.\<close>

definition weighted_sum :: "real \<Rightarrow> real \<Rightarrow> real \<Rightarrow> real \<Rightarrow> real \<Rightarrow> real" where
  "weighted_sum speaker_score duration snr device_score history =
     fadd (fadd (fadd (fadd (fmul (round_to_double (30/100)) speaker_score)
                            (fmul (round_to_double (20/100)) duration))
                      (fmul (round_to_double (15/100)) snr))
                (fmul (round_to_double (15/100)) device_score))
          (fmul (round_to_double (20/100)) history)"

text \<open>
  \<^verbatim>\<open>compute_confidence\<close> on arbitrary argument objects, in the order the source
  evaluates.
\<close>

definition compute_confidence_dyn ::
  "(string \<Rightarrow> real option) \<Rightarrow> pyobj \<Rightarrow> pyobj \<Rightarrow> pyobj \<Rightarrow> pyobj \<Rightarrow> pyobj \<Rightarrow> pyexn + real" where
  "compute_confidence_dyn parse duration_s snr_db speaker_similarity device_match history_count =
     and_then (duration_score duration_s) (\<lambda>duration.
     and_then (snr_score snr_db) (\<lambda>snr.
     and_then (safe_float parse speaker_similarity 0) (\<lambda>sp.
     and_then (safe_float parse device_match 0) (\<lambda>dv.
     and_then (history_score history_count) (\<lambda>history.
       Inr (py_round
              (clamp01 (weighted_sum (clamp01 sp) duration snr (clamp01 dv) history)) 3))))))"

text \<open>
  \<^verbatim>\<open>compute_confidence\<close> on arguments of the annotated types: a float duration, an
  optional float signal-to-noise ratio, two optional scores, an int history count.
\<close>

definition compute_confidence ::
  "(string \<Rightarrow> real option) \<Rightarrow> real \<Rightarrow> real option \<Rightarrow> pyval \<Rightarrow> pyval \<Rightarrow> int \<Rightarrow> pyexn + real" where
  "compute_confidence parse duration_s snr_db speaker_similarity device_match history_count =
     compute_confidence_dyn parse (ObjFloat duration_s) (obj_of_option snr_db)
       (obj_of speaker_similarity) (obj_of device_match) (ObjInt history_count)"

section \<open>The playback decider: data\<close>

text \<open>
  A voice version is the dict the registry stores for one recording; the decider reads the
  keys \<^verbatim>\<open>embedding_path\<close>, \<^verbatim>\<open>age_at_recording\<close> and \<^verbatim>\<open>recorded_utc\<close>, each of
  which may be absent (\<open>None\<close>).
\<close>

record voice_version =
  embedding_path :: "string option"
  age_at_recording :: "int option"
  recorded_utc :: "string option"

record pydate =
  year :: int
  month :: int
  day :: int

record pydatetime =
  dt_date :: pydate
  dt_microseconds :: nat

text \<open>The dict returned by the collaborator \<^verbatim>\<open>select_best_version\<close>.\<close>

record selection =
  sel_mode :: "string option"
  sel_version :: "voice_version option"
  sel_age_gap :: "int option"

text \<open>
  The object \<^verbatim>\<open>UserRegistry(user_id)\<close>: its two read methods and its \<^verbatim>\<open>data\<close> dict
  (\<open>Inl\<close> when reading \<^verbatim>\<open>user.data\<close> raises).
\<close>

record registry =
  get_versions :: "voice_version list"
  get_latest_version :: "voice_version option"
  data :: "pyexn + (string \<Rightarrow> string option)"

text \<open>
  A numpy array: a flat vector, or a zero-dimensional array (one number, with the empty
  shape, whose \<^verbatim>\<open>shape[0]\<close> raises \<^verbatim>\<open>IndexError\<close>). Arrays of two or more
  dimensions are outside the model. The components are carried as exact reals: the
  32-bit rounding of the embedding arithmetic is outside the model, and nothing proved
  below depends on the value of a component.
\<close>

datatype ndarray = Scalar real | Vector "real list"

text \<open>
  What \<^verbatim>\<open>np.load(AGE_DELTAS_PATH, allow_pickle=True).item()\<close> yields when it does not
  raise: something that is not a dict, or a dict whose values either convert with
  \<^verbatim>\<open>np.asarray(v, dtype="float32")\<close> to an array (\<open>Some\<close>) or make it raise (\<open>None\<close>).
\<close>

datatype npy_item = NotADict | Dict "(string \<times> ndarray option) list"

text \<open>
  Everything \<^verbatim>\<open>decide_playback_mode\<close> reads from outside the module: the registry and
  the two helper collaborators (their code is not part of the module), the date parsers
  of the standard library, and the files. \<open>np_load p\<close> is the outcome of
  \<^verbatim>\<open>np.load(PROJECT_ROOT / p).astype("float32")\<close>, \<open>project_path p\<close> is
  \<^verbatim>\<open>str(PROJECT_ROOT / p)\<close>.
\<close>

record world =
  user_registry :: "string \<Rightarrow> registry"
  select_best_version :: "voice_version list \<Rightarrow> int \<Rightarrow> selection"
  classify_age_relation :: "int \<Rightarrow> int \<Rightarrow> string"
  strptime_ymd :: "string \<Rightarrow> pydate option"
  fromisoformat :: "string \<Rightarrow> pydatetime option"
  project_path :: "string \<Rightarrow> string"
  np_load :: "string \<Rightarrow> pyexn + ndarray"
  age_deltas_path :: string
  age_deltas_exists :: bool
  age_deltas_item :: "pyexn + npy_item"

text \<open>
  The returned dict: \<^verbatim>\<open>mode\<close> and \<^verbatim>\<open>reason\<close> are always present, every other key
  is \<open>None\<close> when the dict does not have it. \<^verbatim>\<open>age_gap\<close> is present with the value the
  selection carries, which may itself be \<^verbatim>\<open>None\<close>.
\<close>

record decision =
  mode :: string
  reason :: string
  version :: "voice_version option"
  age_gap :: "int option option"
  expected_path :: "string option"
  delta_dim :: "nat option"
  emb_dim :: "nat option"
  embedding :: "real list option"
  base_version :: "voice_version option"
  target_age :: "int option"
  alpha :: "real option"
  relation :: "string option"

definition mk_decision :: "string \<Rightarrow> string \<Rightarrow> decision" where
  "mk_decision m r =
     \<lparr>mode = m, reason = r, version = None, age_gap = None, expected_path = None,
      delta_dim = None, emb_dim = None, embedding = None, base_version = None,
      target_age = None, alpha = None, relation = None\<rparr>"

section \<open>The playback decider: helpers\<close>

text \<open>\<^verbatim>\<open>recorded_utc.replace("Z", "+00:00")\<close>\<close>

definition replace_Z :: "string \<Rightarrow> string" where
  "replace_Z s = concat (map (\<lambda>c. if c = CHR ''Z'' then ''+00:00'' else [c]) s)"

definition parse_recorded_date ::
  "(string \<Rightarrow> pydatetime option) \<Rightarrow> string option \<Rightarrow> pydatetime option" where
  "parse_recorded_date fromiso recorded =
     (case recorded of
        None \<Rightarrow> None
      | Some r \<Rightarrow> if r = [] then None else fromiso (replace_Z r))"

definition calculate_age ::
  "(string \<Rightarrow> pydate option) \<Rightarrow> string option \<Rightarrow> pydatetime option \<Rightarrow> int option" where
  "calculate_age strp dob recorded_dt =
     (case (dob, recorded_dt) of
        (Some s, Some dt) \<Rightarrow>
          (if s = [] then None
           else case strp s of
                  None \<Rightarrow> None
                | Some birth \<Rightarrow>
                    (let d = dt_date dt;
                         age0 = year d - year birth;
                         age = (if month d < month birth \<or> (month d = month birth \<and> day d < day birth)
                                then age0 - 1 else age0)
                     in if age < 0 \<or> age > 120 then None else Some age))
      | _ \<Rightarrow> None)"

fun convert_items ::
  "(string \<times> ndarray option) list \<Rightarrow> (string \<times> ndarray) list \<Rightarrow> pyexn + (string \<times> ndarray) list" where
  "convert_items [] out = Inr out"
| "convert_items ((k, None) # rest) out = Inl ValueError"
| "convert_items ((k, Some a) # rest) out = convert_items rest (AList.update k a out)"

definition load_age_deltas :: "world \<Rightarrow> (string \<times> ndarray) list option" where
  "load_age_deltas w =
     (if \<not> age_deltas_exists w then None
      else case age_deltas_item w of
             Inl e \<Rightarrow> None
           | Inr NotADict \<Rightarrow> None
           | Inr (Dict items) \<Rightarrow>
               (case convert_items items [] of Inl e \<Rightarrow> None | Inr out \<Rightarrow> Some out))"

text \<open>\<^verbatim>\<open>np.linalg.norm\<close> of a flat vector, and the arithmetic on vectors the decider uses.\<close>

definition l2norm :: "real list \<Rightarrow> real" where
  "l2norm v = sqrt (sum_list (map (\<lambda>x. x * x) v))"

definition epsilon :: real where
  "epsilon = 1 / 10 ^ 12"

definition normalize :: "real list \<Rightarrow> real list" where
  "normalize v = map (\<lambda>x. x / (l2norm v + epsilon)) v"

definition shifted :: "real list \<Rightarrow> real \<Rightarrow> real list \<Rightarrow> real list" where
  "shifted base_emb a delta = map (\<lambda>(x, y). x + a * y) (zip base_emb delta)"

text \<open>Line 148, \<^verbatim>\<open>base_emb / (np.linalg.norm(base_emb) + 1e-12)\<close>, on either kind of array.\<close>

fun normalize_array :: "ndarray \<Rightarrow> ndarray" where
  "normalize_array (Vector v) = Vector (normalize v)"
| "normalize_array (Scalar r) = Scalar (r / (\<bar>r\<bar> + epsilon))"

text \<open>
  Lines 109 to 119 of the decider: the stored \<^verbatim>\<open>age_at_recording\<close> when there is one,
  otherwise the age derived from the date of birth and the recording date.
\<close>

definition resolve_base_age :: "world \<Rightarrow> registry \<Rightarrow> voice_version \<Rightarrow> int option" where
  "resolve_base_age w user bv =
     (case age_at_recording bv of
        Some a \<Rightarrow> Some a
      | None \<Rightarrow>
          (let dob = (case data user of Inl e \<Rightarrow> None | Inr d \<Rightarrow> d ''date_of_birth'');
               recorded_dt = parse_recorded_date (fromisoformat w) (recorded_utc bv)
           in calculate_age (strptime_ymd w) dob recorded_dt))"

text \<open>Line 160: the key of the delta to apply.\<close>

definition delta_key_of :: "string \<Rightarrow> string" where
  "delta_key_of rel = (if rel = ''future'' then ''children_to_adult'' else ''adult_to_children'')"

text \<open>
  Lines 176 and 177: \<^verbatim>\<open>alpha = min(abs(int(base_age) - int(target_age)) / 40.0, 1.0)\<close>.
  The int distance is converted to a double and divided by 40.0 in doubles. A distance
  beyond the range of a double, where the conversion raises \<^verbatim>\<open>OverflowError\<close>, is
  outside the model.
\<close>

definition alpha_of :: "int \<Rightarrow> int \<Rightarrow> real" where
  "alpha_of base_age tgt = min (fdiv (round_to_double (of_int \<bar>base_age - tgt\<bar>)) 40) 1"

section \<open>The playback decider\<close>

definition decide_playback_mode :: "world \<Rightarrow> string \<Rightarrow> int \<Rightarrow> pyexn + decision" where
  "decide_playback_mode w user_id tgt =
     (let user = user_registry w user_id;
          versions = get_versions user
      in if versions = [] then Inr (mk_decision ''NONE'' ''no_voice_versions'')
      else
        let sel = select_best_version w versions tgt
        in if sel_mode sel = Some ''RECORDED'' then
             (case sel_version sel of
                None \<Rightarrow> Inl KeyError
              | Some v \<Rightarrow>
                  Inr ((mk_decision ''RECORDED'' ''real_voice_close_to_target'')
                        \<lparr>version := Some v, age_gap := Some (sel_age_gap sel)\<rparr>))
        else
          (case get_latest_version user of
             None \<Rightarrow> Inr (mk_decision ''NONE'' ''no_embedding_available'')
           | Some bv \<Rightarrow>
               (case embedding_path bv of
                  None \<Rightarrow> Inr (mk_decision ''NONE'' ''no_embedding_available'')
                | Some path \<Rightarrow>
                    if path = [] then Inr (mk_decision ''NONE'' ''no_embedding_available'')
                    else
                      (case resolve_base_age w user bv of
                         None \<Rightarrow>
                           Inr ((mk_decision ''RECORDED'' ''missing_base_age_fallback_recorded'')
                                 \<lparr>version := Some bv\<rparr>)
                       | Some base_age \<Rightarrow>
                           (let rel = classify_age_relation w base_age tgt
                            in if rel = ''same'' then
                                 Inr ((mk_decision ''RECORDED'' ''same_age_requested'')
                                       \<lparr>version := Some bv\<rparr>)
                            else
                              (case np_load w path of
                                 Inl FileNotFoundError \<Rightarrow>
                                   Inr ((mk_decision ''RECORDED'' ''missing_base_embedding_fallback_recorded'')
                                         \<lparr>version := Some bv, expected_path := Some (project_path w path)\<rparr>)
                               | Inl e \<Rightarrow> Inl e
                               | Inr raw \<Rightarrow>
                                   (let base_emb = normalize_array raw
                                    in case load_age_deltas w of
                                         None \<Rightarrow>
                                           Inr ((mk_decision ''RECORDED'' ''missing_age_deltas_fallback_recorded'')
                                                 \<lparr>version := Some bv, expected_path := Some (age_deltas_path w)\<rparr>)
                                       | Some age_deltas \<Rightarrow>
                                           if age_deltas = [] then
                                             Inr ((mk_decision ''RECORDED'' ''missing_age_deltas_fallback_recorded'')
                                                   \<lparr>version := Some bv, expected_path := Some (age_deltas_path w)\<rparr>)
                                           else
                                             (let delta_key = delta_key_of rel
                                              in case map_of age_deltas delta_key of
                                                   None \<Rightarrow>
                                                     Inr ((mk_decision ''RECORDED'' (''missing_delta:'' @ delta_key))
                                                           \<lparr>version := Some bv\<rparr>)
                                                 | Some (Scalar x) \<Rightarrow> Inl IndexError
                                                 | Some (Vector delta) \<Rightarrow>
                                                     (case base_emb of
                                                        Scalar x \<Rightarrow> Inl IndexError
                                                      | Vector base_vec \<Rightarrow>
                                                          if length delta \<noteq> length base_vec then
                                                            Inr ((mk_decision ''RECORDED'' ''delta_dim_mismatch_fallback_recorded'')
                                                                  \<lparr>version := Some bv,
                                                                   delta_dim := Some (length delta),
                                                                   emb_dim := Some (length base_vec)\<rparr>)
                                                          else
                                                            (let a = alpha_of base_age tgt;
                                                                 aged_emb = normalize (shifted base_vec a delta)
                                                             in Inr ((mk_decision ''AGED'' ''age_delta_applied'')
                                                                      \<lparr>embedding := Some aged_emb,
                                                                       base_version := Some bv,
                                                                       target_age := Some tgt,
                                                                       alpha := Some (py_round a 2),
                                                                       relation := Some rel\<rparr>)))))))))))"

text \<open>Lines 182 to 190: the dict returned on the aging path.\<close>

definition aged_decision ::
  "voice_version \<Rightarrow> int \<Rightarrow> int \<Rightarrow> string \<Rightarrow> real list \<Rightarrow> real list \<Rightarrow> decision" where
  "aged_decision bv a tgt rel raw delta =
     (mk_decision ''AGED'' ''age_delta_applied'')
       \<lparr>embedding := Some (normalize (shifted (normalize raw) (alpha_of a tgt) delta)),
        base_version := Some bv, target_age := Some tgt,
        alpha := Some (py_round (alpha_of a tgt) 2), relation := Some rel\<rparr>"

section \<open>The specification's wording\<close>

text \<open>
  The confidence formula as the specification words it, in the same double arithmetic:
  a ramp for the duration (0 below 8 seconds, 1 from 28 seconds on), four cases for the
  signal-to-noise ratio, coercion with a default of zero, a step function on the number
  of prior versions (a count, hence a natural number), and the weighted sum.
\<close>

definition spec_clamp :: "real \<Rightarrow> real" where
  "spec_clamp x = (if x < 0 then 0 else if x > 1 then 1 else x)"

definition spec_duration_score :: "real \<Rightarrow> real" where
  "spec_duration_score d = (if d < 8 then 0 else if d \<ge> 28 then 1 else fdiv (fsub d 8) 20)"

definition spec_snr_score :: "real option \<Rightarrow> real" where
  "spec_snr_score snr =
     (case snr of
        None \<Rightarrow> round_to_double (4/10)
      | Some s \<Rightarrow> if s \<le> 0 then round_to_double (3/10)
                  else if 0 < s \<and> s < 10
                  then fadd (round_to_double (3/10)) (fmul (fdiv s 10) (round_to_double (4/10)))
                  else round_to_double (7/10))"

definition spec_coerce :: "(string \<Rightarrow> real option) \<Rightarrow> pyval \<Rightarrow> real" where
  "spec_coerce parse x =
     (case x of
        PyNone \<Rightarrow> 0
      | PyFloat r \<Rightarrow> r
      | PyStr s \<Rightarrow> (case parse s of None \<Rightarrow> 0 | Some r \<Rightarrow> r))"

definition spec_history_score :: "nat \<Rightarrow> real" where
  "spec_history_score n =
     (if n = 0 then round_to_double (2/10)
      else if n = 1 then round_to_double (4/10)
      else if n = 2 then round_to_double (7/10)
      else 1)"

definition spec_weighted ::
  "(string \<Rightarrow> real option) \<Rightarrow> real \<Rightarrow> real option \<Rightarrow> pyval \<Rightarrow> pyval \<Rightarrow> nat \<Rightarrow> real" where
  "spec_weighted parse d snr sp dv n =
     fadd (fadd (fadd (fadd (fmul (round_to_double (30/100)) (spec_clamp (spec_coerce parse sp)))
                            (fmul (round_to_double (20/100)) (spec_duration_score d)))
                      (fmul (round_to_double (15/100)) (spec_snr_score snr)))
                (fmul (round_to_double (15/100)) (spec_clamp (spec_coerce parse dv))))
          (fmul (round_to_double (20/100)) (spec_history_score n))"

text \<open>
  \<open>r\<close> is \<open>c\<close> rounded to \<open>n\<close> decimal places: the double nearest to a multiple of
  \<open>10^-n\<close> that lies within half a unit of the last place of \<open>c\<close>.
\<close>

definition rounded_to :: "nat \<Rightarrow> real \<Rightarrow> real \<Rightarrow> bool" where
  "rounded_to n c r =
     (\<exists>k::int. \<bar>c * 10 ^ n - of_int k\<bar> \<le> 1/2 \<and> r = round_to_double (of_int k / 10 ^ n))"

text \<open>
  The derived age as the specification words it: whole years, one less when the
  recording's (month, day) precedes the birthday's, unresolved outside 0 to 120.
\<close>

definition precedes :: "int \<times> int \<Rightarrow> int \<times> int \<Rightarrow> bool" where
  "precedes p q = (fst p < fst q \<or> (fst p = fst q \<and> snd p < snd q))"

definition spec_derived_age :: "pydate \<Rightarrow> pydate \<Rightarrow> int option" where
  "spec_derived_age birth d =
     (let years = year d - year birth
                  - (if precedes (month d, day d) (month birth, day birth) then 1 else 0)
      in if 0 \<le> years \<and> years \<le> 120 then Some years else None)"

section \<open>A concrete deployment\<close>

text \<open>
  One user whose date of birth is 1990-03-15, a registry holding the given versions
  (the latest is the last), a selection that never finds a recording close enough, the
  relation read off the two ages, one embedding file (a flat vector, or an exception on
  loading it) and one age-delta file.
\<close>

definition demo_registry :: "voice_version list \<Rightarrow> registry" where
  "demo_registry vs =
     \<lparr>get_versions = vs,
      get_latest_version = (if vs = [] then None else Some (last vs)),
      data = Inr (\<lambda>k. if k = ''date_of_birth'' then Some ''1990-03-15'' else None)\<rparr>"

definition demo_world ::
  "voice_version list \<Rightarrow> (pyexn + real list) \<Rightarrow> (string \<times> ndarray option) list \<Rightarrow> world" where
  "demo_world vs emb deltas =
     \<lparr>user_registry = (\<lambda>uid. demo_registry vs),
      select_best_version =
        (\<lambda>versions t. \<lparr>sel_mode = Some ''AGED'', sel_version = None, sel_age_gap = None\<rparr>),
      classify_age_relation =
        (\<lambda>b t. if b < t then ''future'' else if t < b then ''past'' else ''same''),
      strptime_ymd =
        (\<lambda>s. if s = ''1990-03-15'' then Some \<lparr>year = 1990, month = 3, day = 15\<rparr> else None),
      fromisoformat =
        (\<lambda>s. if s = ''2024-03-14T09:30:00+00:00''
              then Some \<lparr>dt_date = \<lparr>year = 2024, month = 3, day = 14\<rparr>,
                         dt_microseconds = 34200000000\<rparr>
              else if s = ''2024-03-15T09:30:00+00:00''
              then Some \<lparr>dt_date = \<lparr>year = 2024, month = 3, day = 15\<rparr>,
                         dt_microseconds = 34200000000\<rparr>
              else None),
      project_path = (\<lambda>p. ''/srv/voice/'' @ p),
      np_load = (\<lambda>p. case emb of Inl e \<Rightarrow> Inl e | Inr v \<Rightarrow> Inr (Vector v)),
      age_deltas_path = ''/srv/voice/embeddings/age_deltas.npy'',
      age_deltas_exists = True,
      age_deltas_item = Inr (Dict deltas)\<rparr>"

definition demo_version :: "int option \<Rightarrow> voice_version" where
  "demo_version a =
     \<lparr>embedding_path = Some ''versions/embeddings/v1.npy'', age_at_recording = a,
      recorded_utc = Some ''2024-03-14T09:30:00Z''\<rparr>"

definition demo_deltas :: "real list \<Rightarrow> (string \<times> ndarray option) list" where
  "demo_deltas v =
     [(''children_to_adult'', Some (Vector v)), (''adult_to_children'', Some (Vector (map uminus v)))]"

section \<open>Rounding\<close>

lemma round_half_even_of_int: "round_half_even (of_int k) = k"
  unfolding round_half_even_def Let_def by simp

lemma round_half_even_mono:
  assumes "x \<le> y"
  shows "round_half_even x \<le> round_half_even y"
proof (cases "\<lfloor>x\<rfloor> = \<lfloor>y\<rfloor>")
  case True
  then show ?thesis
    using assms unfolding round_half_even_def Let_def by auto
next
  case False
  with assms have lt: "\<lfloor>x\<rfloor> < \<lfloor>y\<rfloor>"
    using floor_mono[of x y] by linarith
  have up: "round_half_even x \<le> \<lfloor>x\<rfloor> + 1"
    unfolding round_half_even_def Let_def by auto
  have lo: "\<lfloor>y\<rfloor> \<le> round_half_even y"
    unfolding round_half_even_def Let_def by auto
  from lt up lo show ?thesis by linarith
qed

lemma round_half_even_minus: "round_half_even (- y) = - round_half_even y"
proof (cases "y = of_int \<lfloor>y\<rfloor>")
  case True
  then obtain k where "y = of_int k" by metis
  then show ?thesis
    using round_half_even_of_int[of k] round_half_even_of_int[of "- k"] by simp
next
  case False
  then have fl: "\<lfloor>- y\<rfloor> = - \<lfloor>y\<rfloor> - 1"
    by (simp add: floor_minus ceiling_altdef)
  show ?thesis
    unfolding round_half_even_def Let_def fl
    by (auto simp: algebra_simps)
qed

lemma round_half_even_near: "\<bar>y - of_int (round_half_even y)\<bar> \<le> 1/2"
  unfolding round_half_even_def Let_def by (auto; linarith)

lemma expo_bounds:
  assumes "0 < x"
  shows "2 powi (expo x) \<le> x \<and> x < 2 powi (expo x + 1)"
proof (cases "1 \<le> x")
  case True
  define n where "n = \<lfloor>x\<rfloor>"
  have n: "0 < n" using True by (simp add: n_def)
  have e: "expo x = bitlen n - 1" using True by (simp add: expo_def n_def)
  have b1: "1 \<le> bitlen n" using n by (simp add: bitlen_alt_def)
  from bitlen_bounds[OF n] have lo: "2 ^ nat (bitlen n - 1) \<le> n" and hi: "n < 2 ^ nat (bitlen n)"
    by auto
  have "(2::real) powi (bitlen n - 1) = of_int (2 ^ nat (bitlen n - 1))"
    using b1 by (simp add: power_int_def)
  also have "\<dots> \<le> of_int n" using lo by (simp only: of_int_le_iff)
  also have "\<dots> \<le> x" by (simp add: n_def)
  finally have A: "2 powi (expo x) \<le> x" by (simp add: e)
  have "n + 1 \<le> 2 ^ nat (bitlen n)" using hi by simp
  then have "of_int (n + 1) \<le> (of_int (2 ^ nat (bitlen n)) :: real)" by (simp only: of_int_le_iff)
  moreover have "x < of_int (n + 1)" by (simp add: n_def)
  moreover have "(2::real) powi (bitlen n - 1 + 1) = of_int (2 ^ nat (bitlen n))"
    using b1 by (simp add: power_int_def)
  ultimately have B: "x < 2 powi (expo x + 1)" by (simp add: e)
  from A B show ?thesis ..
next
  case False
  define m where "m = \<lceil>1 / x\<rceil>"
  define b where "b = bitlen (m - 1)"
  from False assms have y: "1 < 1 / x" by simp
  then have m2: "2 \<le> m" unfolding m_def by linarith
  then have m1: "0 < m - 1" by simp
  have e: "expo x = - b" using False by (simp add: expo_def m_def b_def)
  have b1: "1 \<le> b" using m1 by (simp add: b_def bitlen_alt_def)
  from bitlen_bounds[OF m1] have lo: "2 ^ nat (b - 1) \<le> m - 1" and hi: "m - 1 < 2 ^ nat b"
    by (auto simp: b_def)
  have "1 / x \<le> of_int m" by (simp add: m_def)
  also have "\<dots> \<le> of_int (2 ^ nat b)" using hi by (simp only: of_int_le_iff)
  finally have "1 / x \<le> 2 ^ nat b" by simp
  then have "1 / 2 ^ nat b \<le> x"
    using assms by (simp add: field_simps)
  moreover have "(2::real) powi (- b) = 1 / 2 ^ nat b"
    using b1 by (simp add: power_int_def field_simps)
  ultimately have A: "2 powi (expo x) \<le> x" by (simp add: e)
  have "of_int (m - 1) < 1 / x" unfolding m_def by linarith
  moreover have "(of_int (2 ^ nat (b - 1)) :: real) \<le> of_int (m - 1)"
    using lo by (simp only: of_int_le_iff)
  ultimately have "2 ^ nat (b - 1) < 1 / x" by simp
  then have "x < 1 / 2 ^ nat (b - 1)"
    using assms by (simp add: field_simps)
  moreover have "(2::real) powi (- b + 1) = 1 / 2 ^ nat (b - 1)"
  proof (cases "b = 1")
    case True
    then show ?thesis by simp
  next
    case False
    with b1 have "- b + 1 < 0" by simp
    moreover have "nat (- (- b + 1)) = nat (b - 1)" by simp
    ultimately show ?thesis by (simp add: power_int_def field_simps)
  qed
  ultimately have B: "x < 2 powi (expo x + 1)" by (simp add: e)
  from A B show ?thesis ..
qed

lemma powi2_less_mono:
  assumes "(2::real) powi a < 2 powi b"
  shows "a < b"
proof (rule ccontr)
  assume "\<not> a < b"
  then have "b \<le> a" by simp
  from power_int_increasing[OF this, of "2::real"] assms show False by simp
qed

lemma expo_mono:
  assumes "0 < x" and "x \<le> y"
  shows "expo x \<le> expo y"
proof -
  have "0 < y" using assms by simp
  from expo_bounds[OF assms(1)] expo_bounds[OF this] assms(2)
  have "(2::real) powi (expo x) < 2 powi (expo y + 1)" by linarith
  then have "expo x < expo y + 1" by (rule powi2_less_mono)
  then show ?thesis by simp
qed

lemma round_to_double_alt:
  "round_to_double x =
     of_int (round_half_even (x / 2 powi (max (expo \<bar>x\<bar>) (- 1022) - 52)))
       * 2 powi (max (expo \<bar>x\<bar>) (- 1022) - 52)"
  by (simp add: round_to_double_def Let_def)

lemma round_to_double_minus: "round_to_double (- x) = - round_to_double x"
  by (simp add: round_to_double_alt round_half_even_minus)

lemma round_to_double_zero: "round_to_double 0 = 0"
  by (simp add: round_to_double_alt round_half_even_def)

lemma round_to_double_nonneg:
  assumes "0 \<le> x"
  shows "0 \<le> round_to_double x"
proof -
  from assms have "0 \<le> x / 2 powi (max (expo \<bar>x\<bar>) (- 1022) - 52)" by simp
  from round_half_even_mono[OF this]
  have "0 \<le> round_half_even (x / 2 powi (max (expo \<bar>x\<bar>) (- 1022) - 52))"
    using round_half_even_of_int[of 0] by simp
  then show ?thesis by (simp add: round_to_double_alt)
qed

lemma grid_point:
  assumes "q \<le> e"
  shows "round_half_even (2 powi e / 2 powi q) = 2 ^ nat (e - q)"
proof -
  have "(2::real) powi e / 2 powi q = 2 powi (e - q)"
    by (simp add: power_int_diff)
  also have "\<dots> = of_int (2 ^ nat (e - q))"
    using assms by (simp add: power_int_def)
  finally show ?thesis
    using round_half_even_of_int[of "2 ^ nat (e - q)"] by simp
qed

lemma grid_value:
  assumes "q \<le> e"
  shows "of_int (2 ^ nat (e - q)) * 2 powi q = (2::real) powi e"
proof -
  have "of_int (2 ^ nat (e - q)) = (2::real) powi (e - q)"
    using assms by (simp add: power_int_def)
  then show ?thesis by (simp add: power_int_diff)
qed

lemma round_to_double_mono_pos:
  assumes "0 < x" and "x \<le> y"
  shows "round_to_double x \<le> round_to_double y"
proof -
  define qx where "qx = max (expo \<bar>x\<bar>) (- 1022) - 52"
  define qy where "qy = max (expo \<bar>y\<bar>) (- 1022) - 52"
  have y: "0 < y" using assms by simp
  have ex: "expo \<bar>x\<bar> = expo x" and ey: "expo \<bar>y\<bar> = expo y" using assms y by simp_all
  have le: "expo x \<le> expo y" by (rule expo_mono[OF assms])
  have rx: "round_to_double x = of_int (round_half_even (x / 2 powi qx)) * 2 powi qx"
    by (simp add: round_to_double_alt qx_def)
  have ry: "round_to_double y = of_int (round_half_even (y / 2 powi qy)) * 2 powi qy"
    by (simp add: round_to_double_alt qy_def)
  show ?thesis
  proof (cases "qx = qy")
    case True
    have "x / 2 powi qy \<le> y / 2 powi qy"
      using assms by (simp add: divide_right_mono)
    from round_half_even_mono[OF this] show ?thesis
      unfolding rx ry True by (simp add: mult_right_mono)
  next
    case False
    with le have lt: "qx < qy" unfolding qx_def qy_def ex ey by linarith
    then have e1: "expo x + 1 \<le> expo y" and e2: "qx \<le> expo y" and e3: "qy \<le> expo y"
      using le unfolding qx_def qy_def ex ey by linarith+
    define B where "B = (2::real) powi (expo y)"
    have By: "B \<le> y" using expo_bounds[OF y] by (simp add: B_def)
    have "x < 2 powi (expo x + 1)" using expo_bounds[OF assms(1)] by simp
    also have "\<dots> \<le> B" unfolding B_def by (rule power_int_increasing[OF e1]) simp
    finally have xB: "x \<le> B" by simp
    have "x / 2 powi qx \<le> B / 2 powi qx" using xB by (simp add: divide_right_mono)
    from round_half_even_mono[OF this]
    have "round_half_even (x / 2 powi qx) \<le> 2 ^ nat (expo y - qx)"
      unfolding B_def grid_point[OF e2] .
    then have "of_int (round_half_even (x / 2 powi qx)) * 2 powi qx
                 \<le> of_int (2 ^ nat (expo y - qx)) * (2::real) powi qx"
      by (intro mult_right_mono) (simp_all only: of_int_le_iff, simp)
    then have A: "round_to_double x \<le> B" unfolding rx B_def grid_value[OF e2] .
    have "B / 2 powi qy \<le> y / 2 powi qy" using By by (simp add: divide_right_mono)
    from round_half_even_mono[OF this]
    have "2 ^ nat (expo y - qy) \<le> round_half_even (y / 2 powi qy)"
      unfolding B_def grid_point[OF e3] .
    then have "of_int (2 ^ nat (expo y - qy)) * (2::real) powi qy
                 \<le> of_int (round_half_even (y / 2 powi qy)) * 2 powi qy"
      by (intro mult_right_mono) (simp_all only: of_int_le_iff, simp)
    then have C: "B \<le> round_to_double y" unfolding ry B_def grid_value[OF e3] .
    from A C show ?thesis by simp
  qed
qed

lemma round_to_double_mono:
  assumes "x \<le> y"
  shows "round_to_double x \<le> round_to_double y"
proof -
  consider "0 < x" | "x \<le> 0" "0 \<le> y" | "y < 0" by linarith
  then show ?thesis
  proof cases
    case 1
    then show ?thesis using assms by (rule round_to_double_mono_pos)
  next
    case 2
    have "round_to_double x \<le> 0"
      using round_to_double_nonneg[of "- x"] 2(1) by (simp add: round_to_double_minus)
    moreover have "0 \<le> round_to_double y" using 2(2) by (rule round_to_double_nonneg)
    ultimately show ?thesis by simp
  next
    case 3
    then have "0 < - y" and "- y \<le> - x" using assms by simp_all
    from round_to_double_mono_pos[OF this] show ?thesis
      by (simp add: round_to_double_minus)
  qed
qed

lemma expo_pow2: "expo (2 powi e) = e"
proof -
  have p: "(0::real) < 2 powi e" by simp
  from expo_bounds[OF p] have lo: "(2::real) powi (expo (2 powi e)) \<le> 2 powi e"
    and hi: "(2::real) powi e < 2 powi (expo (2 powi e) + 1)" by simp_all
  from powi2_less_mono[OF hi] have "e \<le> expo (2 powi e)" by simp
  moreover have "expo (2 powi e) \<le> e"
  proof (rule ccontr)
    assume "\<not> expo (2 powi e) \<le> e"
    then have "e < expo (2 powi e)" by simp
    from power_int_strict_increasing[OF this, of "2::real"] lo show False by simp
  qed
  ultimately show ?thesis by simp
qed

lemma round_to_double_pow2:
  assumes "- 1022 \<le> e"
  shows "round_to_double (2 powi e) = 2 powi e"
proof -
  have q: "max (expo \<bar>(2::real) powi e\<bar>) (- 1022) - 52 = e - 52"
    using assms by (simp add: expo_pow2)
  have le: "e - 52 \<le> e" by simp
  show ?thesis
    unfolding round_to_double_alt q grid_point[OF le] grid_value[OF le] ..
qed

lemma round_to_double_ge_pow2:
  assumes "2 ^ n \<le> i"
  shows "(2::real) ^ n \<le> \<bar>round_to_double (of_int i)\<bar>"
proof -
  have e: "- 1022 \<le> int n" by simp
  have "(2::real) powi (int n) = of_int (2 ^ n)" by (simp add: power_int_def)
  also have "\<dots> \<le> of_int i" using assms by (simp only: of_int_le_iff)
  finally have "round_to_double (2 powi (int n)) \<le> round_to_double (of_int i)"
    by (rule round_to_double_mono)
  then have "(2::real) powi (int n) \<le> round_to_double (of_int i)"
    by (simp only: round_to_double_pow2[OF e])
  then have "(2::real) ^ n \<le> round_to_double (of_int i)" by (simp add: power_int_def)
  then show ?thesis by linarith
qed

lemma round_to_double_exact:
  "round_to_double 1 = 1" "round_to_double 20 = 20" "round_to_double 40 = 40"
  by code_simp+

lemma fadd_mono: "a \<le> a' \<Longrightarrow> b \<le> b' \<Longrightarrow> fadd a b \<le> fadd a' b'"
  unfolding fadd_def by (rule round_to_double_mono) simp

lemma fmul_mono: "0 \<le> c \<Longrightarrow> x \<le> y \<Longrightarrow> fmul c x \<le> fmul c y"
  unfolding fmul_def by (rule round_to_double_mono) (simp add: mult_left_mono)

lemma fdiv_mono: "0 < c \<Longrightarrow> x \<le> y \<Longrightarrow> fdiv x c \<le> fdiv y c"
  unfolding fdiv_def by (rule round_to_double_mono) (simp add: divide_right_mono)

lemma fsub_mono: "x \<le> y \<Longrightarrow> fsub x c \<le> fsub y c"
  unfolding fsub_def by (rule round_to_double_mono) simp

lemma py_round_mono: "x \<le> y \<Longrightarrow> py_round x n \<le> py_round y n"
  unfolding py_round_def
  by (intro round_to_double_mono divide_right_mono)
     (auto intro!: round_half_even_mono mult_right_mono)


lemma py_round_one: "py_round 1 n = 1"
proof -
  have "round_half_even ((10::real) ^ n) = 10 ^ n"
    using round_half_even_of_int[of "10 ^ n"] by simp
  then show ?thesis by (simp add: py_round_def round_to_double_exact)
qed

lemma py_round_rounded: "rounded_to n c (py_round c n)"
  unfolding rounded_to_def py_round_def
  by (rule exI[of _ "round_half_even (c * 10 ^ n)"])
     (use round_half_even_near[of "c * 10 ^ n"] in simp)




lemma clamp01_mono: "x \<le> y \<Longrightarrow> clamp x 0 1 \<le> clamp y 0 1"
  by (simp add: clamp_def)

section \<open>The confidence engine: results\<close>

lemma and_then_Inr [simp]: "and_then (Inr v) f = f v"
  by (simp add: and_then_def)

lemma and_then_Inl [simp]: "and_then (Inl e) f = Inl e"
  by (simp add: and_then_def)

lemma safe_float_coerce: "safe_float parse (obj_of x) 0 = Inr (spec_coerce parse x)"
  by (cases x) (auto simp: safe_float_def spec_coerce_def split: option.splits)

lemma spec_clamp_eq: "spec_clamp x = clamp x 0 1"
  by (simp add: spec_clamp_def clamp_def)

lemma duration_ramp: "clamp01 (fdiv (fsub d 8) 20) = spec_duration_score d"
proof -
  consider "d < 8" | "28 \<le> d" | "8 \<le> d" "d < 28" by linarith
  then show ?thesis
  proof cases
    case 1
    then have "fsub d 8 \<le> 0"
      using round_to_double_mono[of "d - 8" 0] by (simp add: fsub_def round_to_double_zero)
    then have "fdiv (fsub d 8) 20 \<le> 0"
      using round_to_double_mono[of "fsub d 8 / 20" 0] by (simp add: fdiv_def round_to_double_zero)
    with 1 show ?thesis by (simp add: spec_duration_score_def clamp_def)
  next
    case 2
    then have "20 \<le> fsub d 8"
      using round_to_double_mono[of 20 "d - 8"] by (simp add: fsub_def round_to_double_exact)
    then have "1 \<le> fdiv (fsub d 8) 20"
      using round_to_double_mono[of 1 "fsub d 8 / 20"] by (simp add: fdiv_def round_to_double_exact)
    with 2 show ?thesis by (simp add: spec_duration_score_def clamp_def)
  next
    case 3
    then have lo: "0 \<le> fsub d 8"
      using round_to_double_nonneg[of "d - 8"] by (simp add: fsub_def)
    have hi: "fsub d 8 \<le> 20"
      using 3 round_to_double_mono[of "d - 8" 20] by (simp add: fsub_def round_to_double_exact)
    have "0 \<le> fdiv (fsub d 8) 20"
      using lo round_to_double_nonneg[of "fsub d 8 / 20"] by (simp add: fdiv_def)
    moreover have "fdiv (fsub d 8) 20 \<le> 1"
      using hi round_to_double_mono[of "fsub d 8 / 20" 1] by (simp add: fdiv_def round_to_double_exact)
    ultimately show ?thesis using 3 by (simp add: spec_duration_score_def clamp_def)
  qed
qed

lemma duration_score_float: "duration_score (ObjFloat d) = Inr (spec_duration_score d)"
  by (simp add: duration_score_def duration_ramp)

lemma snr_score_typed: "snr_score (obj_of_option snr) = Inr (spec_snr_score snr)"
  by (cases snr) (simp_all add: snr_score_def spec_snr_score_def)

lemma history_score_int:
  "history_score (ObjInt h) =
     Inr (if 3 \<le> h then 1
          else if h = 2 then round_to_double (7/10)
          else if h = 1 then round_to_double (4/10)
          else round_to_double (2/10))"
  by (simp add: history_score_def)

lemma history_score_nat: "history_score (ObjInt (int n)) = Inr (spec_history_score n)"
  by (simp add: history_score_int spec_history_score_def)

lemma history_levels:
  "round_to_double (2/10) \<le> round_to_double (4/10)"
  "round_to_double (4/10) \<le> round_to_double (7/10)"
  "round_to_double (7/10) \<le> 1"
  using round_to_double_mono[of "2/10" "4/10"] round_to_double_mono[of "4/10" "7/10"]
    round_to_double_mono[of "7/10" 1]
  by (simp_all add: round_to_double_exact)

lemma history_score_mono:
  assumes "h1 \<le> h2"
  shows "\<exists>v1 v2. history_score (ObjInt h1) = Inr v1 \<and> history_score (ObjInt h2) = Inr v2 \<and> v1 \<le> v2"
  using assms history_levels unfolding history_score_int by auto

lemma weighted_sum_mono:
  assumes "a \<le> a'" and "h \<le> h'"
  shows "weighted_sum a D S b h \<le> weighted_sum a' D S b h'"
  unfolding weighted_sum_def
  by (intro fadd_mono fmul_mono round_to_double_nonneg assms order_refl) simp_all

lemma compute_confidence_closed:
  assumes "history_score (ObjInt h) = Inr v"
  shows "compute_confidence parse d snr sp dv h =
           Inr (py_round (clamp01 (weighted_sum (clamp01 (spec_coerce parse sp))
                  (spec_duration_score d) (spec_snr_score snr)
                  (clamp01 (spec_coerce parse dv)) v)) 3)"
  by (simp add: compute_confidence_def compute_confidence_dyn_def duration_score_float
      snr_score_typed safe_float_coerce assms)

lemma demo_duration: "spec_duration_score 18 = 1/2"
proof -
  have "fdiv (fsub 18 8) 20 = 1/2" by code_simp
  then show ?thesis by (simp add: spec_duration_score_def)
qed

lemma demo_snr: "spec_snr_score (Some 5) = 1/2"
proof -
  have "fadd (round_to_double (3/10)) (fmul (fdiv 5 10) (round_to_double (4/10))) = 1/2"
    by code_simp
  then show ?thesis by (simp add: spec_snr_score_def)
qed

lemma demo_sum:
  "py_round (clamp01 (weighted_sum (1/2) (1/2) (1/2) 0 (round_to_double (7/10)))) 3
     = round_to_double (465/1000)"
  by code_simp

lemma demo_value:
  "compute_confidence (\<lambda>s. None) 18 (Some 5) (PyFloat (1/2)) (PyStr ''n/a'') 2
     = Inr (round_to_double (465/1000))"
proof -
  have h: "history_score (ObjInt 2) = Inr (round_to_double (7/10))"
    by (simp add: history_score_int)
  have c: "clamp01 (1/2) = 1/2" "clamp01 0 = 0" by (simp_all add: clamp_def)
  show ?thesis
    unfolding compute_confidence_closed[OF h] spec_coerce_def demo_duration demo_snr
    by (simp only: pyval.case option.case c demo_sum)
qed

text \<open>
  Claim C1. For every input, \<^verbatim>\<open>compute_confidence\<close> returns the weighted sum
  0.30 speaker + 0.20 duration + 0.15 snr + 0.15 device + 0.20 history, clamped to the
  unit interval and rounded to three decimals, with the sub-scores as the specification
  gives them: the duration ramp from 8 to 28 seconds, the four cases of the
  signal-to-noise score, the two coerced and clamped scores (missing or unparseable
  counts as zero), and the history steps 0.2, 0.4, 0.7, 1.0 for 0, 1, 2 and at least 3
  prior versions. Sum, products and literals are those of double arithmetic, and the
  result is the double nearest to a multiple of one thousandth that lies within half a
  thousandth of the clamped sum.
\<close>

theorem compute_confidence_formula:
  "\<exists>r. compute_confidence parse d snr sp dv (int n) = Inr r \<and>
       rounded_to 3 (spec_clamp (spec_weighted parse d snr sp dv n)) r"
  by (simp add: compute_confidence_closed[OF history_score_nat] spec_clamp_eq spec_weighted_def
      weighted_sum_def py_round_rounded)

theorem compute_confidence_formula_witness:
  "compute_confidence (\<lambda>s. None) 18 (Some 5) (PyFloat (1/2)) (PyStr ''n/a'') 2
     = Inr (round_to_double (465/1000)) \<and>
   rounded_to 3 (spec_clamp (spec_weighted (\<lambda>s. None) 18 (Some 5) (PyFloat (1/2)) (PyStr ''n/a'') 2))
     (round_to_double (465/1000))"
  using compute_confidence_formula[of "\<lambda>s. None" 18 "Some 5" "PyFloat (1/2)" "PyStr ''n/a''" 2]
  by (simp add: demo_value)


text \<open>
  Inside \<^verbatim>\<open>_safe_float\<close> itself one exception escapes: \<^verbatim>\<open>float\<close> of an int
  beyond the range of a double raises \<^verbatim>\<open>OverflowError\<close>, which the
  \<^verbatim>\<open>except (TypeError, ValueError)\<close> clause does not catch.
\<close>

lemma float_of_int_overflows:
  assumes "2 ^ 1024 \<le> i"
  shows "float_of_int i = Inl OverflowError"
  using round_to_double_ge_pow2[OF assms]
  unfolding float_of_int_def Let_def by (simp only: if_True)

lemma ten_400: "(2::int) ^ 1024 \<le> 10 ^ 400"
  by simp

lemma compute_confidence_int_overflow:
  "compute_confidence_dyn parse (ObjFloat 20) ObjNone (ObjInt (10 ^ 400)) ObjNone (ObjInt 0)
     = Inl OverflowError"
proof -
  have "safe_float parse (ObjInt (10 ^ 400)) 0 = Inl OverflowError"
    unfolding safe_float_def py_float.simps float_of_int_overflows[OF ten_400] by simp
  then show ?thesis
    unfolding compute_confidence_dyn_def
    by (simp add: duration_score_def snr_score_def)
qed



text \<open>
  Claim C9. With every other argument fixed, a larger speaker similarity never gives a
  smaller confidence, and a larger history count never gives a smaller confidence; both
  calls return.
\<close>

theorem compute_confidence_monotone:
  "(s1 \<le> s2 \<longrightarrow>
      (\<exists>r1 r2. compute_confidence parse d snr (PyFloat s1) dv h = Inr r1 \<and>
               compute_confidence parse d snr (PyFloat s2) dv h = Inr r2 \<and> r1 \<le> r2)) \<and>
   (h1 \<le> h2 \<longrightarrow>
      (\<exists>r1 r2. compute_confidence parse d snr sp dv h1 = Inr r1 \<and>
               compute_confidence parse d snr sp dv h2 = Inr r2 \<and> r1 \<le> r2))"
proof (intro conjI impI)
  obtain v where v: "history_score (ObjInt h) = Inr v"
    by (simp add: history_score_int)
  assume "s1 \<le> s2"
  then have cl: "clamp s1 0 1 \<le> clamp s2 0 1"
    by (rule clamp01_mono)
  have "weighted_sum (clamp s1 0 1) (spec_duration_score d) (spec_snr_score snr)
          (clamp01 (spec_coerce parse dv)) v
        \<le> weighted_sum (clamp s2 0 1) (spec_duration_score d) (spec_snr_score snr)
          (clamp01 (spec_coerce parse dv)) v"
    using cl by (rule weighted_sum_mono) simp
  then show "\<exists>r1 r2. compute_confidence parse d snr (PyFloat s1) dv h = Inr r1 \<and>
               compute_confidence parse d snr (PyFloat s2) dv h = Inr r2 \<and> r1 \<le> r2"
    unfolding compute_confidence_closed[OF v]
    by (simp add: spec_coerce_def) (intro py_round_mono clamp01_mono)
next
  assume "h1 \<le> h2"
  from history_score_mono[OF this] obtain v1 v2 where
    v: "history_score (ObjInt h1) = Inr v1" "history_score (ObjInt h2) = Inr v2" "v1 \<le> v2"
    by blast
  show "\<exists>r1 r2. compute_confidence parse d snr sp dv h1 = Inr r1 \<and>
               compute_confidence parse d snr sp dv h2 = Inr r2 \<and> r1 \<le> r2"
    unfolding compute_confidence_closed[OF v(1)] compute_confidence_closed[OF v(2)]
    using weighted_sum_mono[OF order_refl v(3)]
    by simp (intro py_round_mono clamp01_mono, simp)
qed

theorem compute_confidence_monotone_witness:
  "(3/10 :: real) \<le> 8/10 \<and>
   (\<exists>r1 r2. compute_confidence (\<lambda>s. None) 18 (Some 5) (PyFloat (3/10)) PyNone 1 = Inr r1 \<and>
            compute_confidence (\<lambda>s. None) 18 (Some 5) (PyFloat (8/10)) PyNone 1 = Inr r2 \<and>
            r1 \<le> r2) \<and>
   (1 :: int) \<le> 3 \<and>
   (\<exists>r1 r2. compute_confidence (\<lambda>s. None) 18 (Some 5) (PyFloat (1/2)) PyNone 1 = Inr r1 \<and>
            compute_confidence (\<lambda>s. None) 18 (Some 5) (PyFloat (1/2)) PyNone 3 = Inr r2 \<and>
            r1 \<le> r2)"
  using compute_confidence_monotone[where ?s1.0 = "3/10" and ?s2.0 = "8/10" and parse = "\<lambda>s. None"
      and d = 18 and snr = "Some 5" and dv = PyNone and h = 1 and ?h1.0 = 1 and ?h2.0 = 3
      and sp = "PyFloat (1/2)"]
  by simp

section \<open>The playback decider: results\<close>

subsection \<open>The aging path\<close>

lemma length_normalize: "length (normalize v) = length v"
  by (simp add: normalize_def)

lemma decide_aged_inversion:
  assumes "decide_playback_mode w uid tgt = Inr d" and "mode d = ''AGED''"
  shows "\<exists>bv path a raw ds delta.
           get_versions (user_registry w uid) \<noteq> [] \<and>
           get_latest_version (user_registry w uid) = Some bv \<and>
           embedding_path bv = Some path \<and>
           resolve_base_age w (user_registry w uid) bv = Some a \<and>
           np_load w path = Inr (Vector raw) \<and>
           load_age_deltas w = Some ds \<and>
           map_of ds (delta_key_of (classify_age_relation w a tgt)) = Some (Vector delta) \<and>
           length delta = length raw \<and>
           d = aged_decision bv a tgt (classify_age_relation w a tgt) raw delta"
  using assms
  unfolding decide_playback_mode_def Let_def aged_decision_def
  by (auto simp: mk_decision_def length_normalize
      split: if_splits option.splits sum.splits pyexn.splits ndarray.splits
      elim!: normalize_array.elims)

lemma decide_aged_success:
  assumes "get_versions (user_registry w uid) \<noteq> []"
    and "sel_mode (select_best_version w (get_versions (user_registry w uid)) tgt)
           \<noteq> Some ''RECORDED''"
    and "get_latest_version (user_registry w uid) = Some bv"
    and "embedding_path bv = Some path" and "path \<noteq> []"
    and "resolve_base_age w (user_registry w uid) bv = Some a"
    and "classify_age_relation w a tgt \<noteq> ''same''"
    and "np_load w path = Inr (Vector raw)"
    and "load_age_deltas w = Some ds"
    and "map_of ds (delta_key_of (classify_age_relation w a tgt)) = Some (Vector delta)"
    and "length delta = length raw"
  shows "decide_playback_mode w uid tgt =
           Inr (aged_decision bv a tgt (classify_age_relation w a tgt) raw delta)"
proof -
  from assms(10) have "ds \<noteq> []" by auto
  with assms show ?thesis
    unfolding decide_playback_mode_def Let_def aged_decision_def
    by (simp add: length_normalize)
qed

lemma aged_decision_mode: "mode (aged_decision bv a tgt rel raw delta) = ''AGED''"
  by (simp add: aged_decision_def mk_decision_def)

lemma aged_decision_alpha:
  "alpha (aged_decision bv a tgt rel raw delta) = Some (py_round (alpha_of a tgt) 2)"
  by (simp add: aged_decision_def mk_decision_def)

lemma alpha_of_capped:
  assumes "40 \<le> \<bar>a - tgt\<bar>"
  shows "alpha_of a tgt = 1"
proof -
  have "(40::real) \<le> of_int \<bar>a - tgt\<bar>" using assms by linarith
  then have "round_to_double 40 \<le> round_to_double (of_int \<bar>a - tgt\<bar>)"
    by (rule round_to_double_mono)
  then have "1 \<le> round_to_double (of_int \<bar>a - tgt\<bar>) / 40"
    by (simp add: round_to_double_exact)
  then have "round_to_double 1 \<le> fdiv (round_to_double (of_int \<bar>a - tgt\<bar>)) 40"
    unfolding fdiv_def by (rule round_to_double_mono)
  then show ?thesis by (simp add: alpha_of_def round_to_double_exact)
qed

subsection \<open>The concrete deployment, evaluated\<close>

lemma demo_world_sel [simp]:
  "user_registry (demo_world vs emb ds) uid = demo_registry vs"
  "sel_mode (select_best_version (demo_world vs emb ds) xs t) = Some ''AGED''"
  "classify_age_relation (demo_world vs emb ds) b t =
     (if b < t then ''future'' else if t < b then ''past'' else ''same'')"
  "np_load (demo_world vs emb ds) p = (case emb of Inl e \<Rightarrow> Inl e | Inr v \<Rightarrow> Inr (Vector v))"
  "project_path (demo_world vs emb ds) p = ''/srv/voice/'' @ p"
  "age_deltas_path (demo_world vs emb ds) = ''/srv/voice/embeddings/age_deltas.npy''"
  by (simp_all add: demo_world_def)

lemma demo_registry_sel [simp]:
  "get_versions (demo_registry vs) = vs"
  "get_latest_version (demo_registry vs) = (if vs = [] then None else Some (last vs))"
  by (simp_all add: demo_registry_def)

lemma demo_version_sel [simp]:
  "embedding_path (demo_version a) = Some ''versions/embeddings/v1.npy''"
  "age_at_recording (demo_version a) = a"
  "recorded_utc (demo_version a) = Some ''2024-03-14T09:30:00Z''"
  by (simp_all add: demo_version_def)

lemma demo_load:
  "load_age_deltas (demo_world vs emb (demo_deltas v)) =
     Some [(''children_to_adult'', Vector v), (''adult_to_children'', Vector (map uminus v))]"
  by (simp add: load_age_deltas_def demo_world_def demo_deltas_def)

lemma demo_resolve_stored: "resolve_base_age w u (demo_version (Some a)) = Some a"
  by (simp add: resolve_base_age_def)

lemma demo_aged:
  assumes "a < tgt"
  shows "decide_playback_mode (demo_world [demo_version (Some a)] (Inr [x]) (demo_deltas [y]))
           ''alice'' tgt
         = Inr (aged_decision (demo_version (Some a)) a tgt ''future'' [x] [y])"
  by (rule decide_aged_success[where path = "''versions/embeddings/v1.npy''" and a = a
        and raw = "[x]"
        and ds = "[(''children_to_adult'', Vector [y]), (''adult_to_children'', Vector (map uminus [y]))]",
        THEN trans])
     (use assms in \<open>simp_all add: demo_load demo_resolve_stored delta_key_of_def\<close>)

subsection \<open>Empty history\<close>

text \<open>
  Claim C6. For a user whose version history is empty, \<^verbatim>\<open>decide_playback_mode\<close>
  returns exactly the dict with mode NONE and reason \<^verbatim>\<open>no_voice_versions\<close> and no
  other key, whatever the target age.
\<close>

theorem decide_empty_history:
  "get_versions (user_registry w uid) = [] \<Longrightarrow>
   decide_playback_mode w uid tgt =
     Inr \<lparr>mode = ''NONE'', reason = ''no_voice_versions'', version = None, age_gap = None,
          expected_path = None, delta_dim = None, emb_dim = None, embedding = None,
          base_version = None, target_age = None, alpha = None, relation = None\<rparr>"
  by (simp add: decide_playback_mode_def mk_decision_def)

theorem decide_empty_history_witness:
  "get_versions (user_registry (demo_world [] (Inl FileNotFoundError) []) ''alice'') = [] \<and>
   decide_playback_mode (demo_world [] (Inl FileNotFoundError) []) ''alice'' 40 =
     Inr \<lparr>mode = ''NONE'', reason = ''no_voice_versions'', version = None, age_gap = None,
          expected_path = None, delta_dim = None, emb_dim = None, embedding = None,
          base_version = None, target_age = None, alpha = None, relation = None\<rparr>"
  using decide_empty_history[of "demo_world [] (Inl FileNotFoundError) []" "''alice''" 40]
  by simp

subsection \<open>A corrupt embedding file\<close>

text \<open>
  Claim C7 says that \<^verbatim>\<open>decide_playback_mode\<close> ends in a decision of mode NONE,
  RECORDED or AGED for every state of the embedding and age-delta files, corrupt ones
  included. The code does not: an embedding file that exists but does not hold an array
  makes \<^verbatim>\<open>np.load\<close> raise \<^verbatim>\<open>ValueError\<close>; only \<^verbatim>\<open>FileNotFoundError\<close> is caught
  around that load (the age-delta load catches every exception), so the exception
  leaves \<^verbatim>\<open>decide_playback_mode\<close> and no decision is returned.
\<close>

theorem decide_corrupt_embedding_raises:
  "decide_playback_mode
     (demo_world [demo_version (Some 8)] (Inl ValueError) (demo_deltas [1])) ''alice'' 40
     = Inl ValueError"
  by (simp add: decide_playback_mode_def resolve_base_age_def)

subsection \<open>Fallbacks\<close>

text \<open>
  Claim C2, as stated, fails on its first branch: with a non-empty history and a
  selection that does not report RECORDED, a latest version without an embedding path
  gives mode NONE (reason \<^verbatim>\<open>no_embedding_available\<close>), not RECORDED.
\<close>

theorem decide_no_embedding_path_counterexample:
  "get_versions (user_registry
      (demo_world [(demo_version (Some 8))\<lparr>embedding_path := None\<rparr>] (Inr [1]) (demo_deltas [1]))
      ''alice'') \<noteq> [] \<and>
   sel_mode (select_best_version
      (demo_world [(demo_version (Some 8))\<lparr>embedding_path := None\<rparr>] (Inr [1]) (demo_deltas [1]))
      [(demo_version (Some 8))\<lparr>embedding_path := None\<rparr>] 40) \<noteq> Some ''RECORDED'' \<and>
   get_latest_version (user_registry
      (demo_world [(demo_version (Some 8))\<lparr>embedding_path := None\<rparr>] (Inr [1]) (demo_deltas [1]))
      ''alice'') = Some ((demo_version (Some 8))\<lparr>embedding_path := None\<rparr>) \<and>
   embedding_path ((demo_version (Some 8))\<lparr>embedding_path := None\<rparr>) = None \<and>
   decide_playback_mode
      (demo_world [(demo_version (Some 8))\<lparr>embedding_path := None\<rparr>] (Inr [1]) (demo_deltas [1]))
      ''alice'' 40
     = Inr (mk_decision ''NONE'' ''no_embedding_available'') \<and>
   mode (mk_decision ''NONE'' ''no_embedding_available'') \<noteq> ''RECORDED''"
  by (simp add: decide_playback_mode_def demo_version_def mk_decision_def)

text \<open>
  Claim C2, amended. Let the history be non-empty and the selection not report
  RECORDED. If there is no latest version, or it has no embedding path or an empty
  one, the decision is exactly mode NONE with reason \<^verbatim>\<open>no_embedding_available\<close>.
  If the latest version carries an embedding path, each later failure branch (base age
  unresolved; base embedding file missing; age-delta set missing, unparseable or empty;
  delta key absent; a flat delta vector whose length differs from that of the flat
  base embedding) returns a decision of mode RECORDED whose version is the latest
  version, and raises nothing.
\<close>

theorem decide_fallback_recorded:
  assumes "get_versions (user_registry w uid) \<noteq> []"
    and "sel_mode (select_best_version w (get_versions (user_registry w uid)) tgt)
           \<noteq> Some ''RECORDED''"
  shows "(get_latest_version (user_registry w uid) = None
          \<or> (\<exists>bv. get_latest_version (user_registry w uid) = Some bv
                \<and> (embedding_path bv = None \<or> embedding_path bv = Some []))
          \<longrightarrow> decide_playback_mode w uid tgt = Inr (mk_decision ''NONE'' ''no_embedding_available''))
       \<and> (get_latest_version (user_registry w uid) = Some bv
          \<and> embedding_path bv = Some path \<and> path \<noteq> []
          \<and> (resolve_base_age w (user_registry w uid) bv = None
             \<or> (\<exists>a. resolve_base_age w (user_registry w uid) bv = Some a
                  \<and> classify_age_relation w a tgt \<noteq> ''same''
                  \<and> (np_load w path = Inl FileNotFoundError
                     \<or> (\<exists>raw. np_load w path = Inr raw
                          \<and> (load_age_deltas w = None
                             \<or> load_age_deltas w = Some []
                             \<or> (\<exists>ds. load_age_deltas w = Some ds
                                   \<and> (map_of ds (delta_key_of (classify_age_relation w a tgt)) = None
                                      \<or> (\<exists>delta rv.
                                            map_of ds (delta_key_of (classify_age_relation w a tgt))
                                              = Some (Vector delta)
                                            \<and> raw = Vector rv
                                            \<and> length delta \<noteq> length rv))))))))
          \<longrightarrow> (\<exists>d. decide_playback_mode w uid tgt = Inr d \<and> mode d = ''RECORDED'' \<and>
                   version d = Some bv))"
  using assms
  unfolding decide_playback_mode_def Let_def
  by (auto simp: mk_decision_def length_normalize split: option.splits)

theorem decide_fallback_recorded_witness:
  "decide_playback_mode
     (demo_world [(demo_version (Some 8))\<lparr>embedding_path := None\<rparr>] (Inr [1]) (demo_deltas [1]))
     ''alice'' 40 = Inr (mk_decision ''NONE'' ''no_embedding_available'') \<and>
   (\<exists>d. decide_playback_mode
          (demo_world [demo_version (Some 8)] (Inr [1, 0]) (demo_deltas [1])) ''alice'' 40 = Inr d
       \<and> mode d = ''RECORDED'' \<and> version d = Some (demo_version (Some 8)))"
proof -
  have n1: "get_versions (user_registry
      (demo_world [(demo_version (Some 8))\<lparr>embedding_path := None\<rparr>] (Inr [1]) (demo_deltas [1]))
      ''alice'') \<noteq> []"
    by simp
  have s1: "sel_mode (select_best_version
      (demo_world [(demo_version (Some 8))\<lparr>embedding_path := None\<rparr>] (Inr [1]) (demo_deltas [1]))
      (get_versions (user_registry
        (demo_world [(demo_version (Some 8))\<lparr>embedding_path := None\<rparr>] (Inr [1]) (demo_deltas [1]))
        ''alice'')) 40) \<noteq> Some ''RECORDED''"
    by simp
  have A: "decide_playback_mode
     (demo_world [(demo_version (Some 8))\<lparr>embedding_path := None\<rparr>] (Inr [1]) (demo_deltas [1]))
     ''alice'' 40 = Inr (mk_decision ''NONE'' ''no_embedding_available'')"
    by (rule decide_fallback_recorded[OF n1 s1, THEN conjunct1, THEN mp]) simp
  have n2: "get_versions (user_registry
      (demo_world [demo_version (Some 8)] (Inr [1, 0]) (demo_deltas [1])) ''alice'') \<noteq> []"
    by simp
  have s2: "sel_mode (select_best_version
      (demo_world [demo_version (Some 8)] (Inr [1, 0]) (demo_deltas [1]))
      (get_versions (user_registry
        (demo_world [demo_version (Some 8)] (Inr [1, 0]) (demo_deltas [1])) ''alice'')) 40)
      \<noteq> Some ''RECORDED''"
    by simp
  have B: "\<exists>d. decide_playback_mode
          (demo_world [demo_version (Some 8)] (Inr [1, 0]) (demo_deltas [1])) ''alice'' 40 = Inr d
       \<and> mode d = ''RECORDED'' \<and> version d = Some (demo_version (Some 8))"
    by (rule decide_fallback_recorded[where path = "''versions/embeddings/v1.npy''",
          OF n2 s2, THEN conjunct2, THEN mp])
       (simp add: demo_load demo_resolve_stored delta_key_of_def)
  from A B show ?thesis ..
qed

text \<open>
  The dimension check reads \<^verbatim>\<open>delta.shape[0]\<close>: a selected delta that is a
  zero-dimensional array makes it raise \<^verbatim>\<open>IndexError\<close>, which nothing catches.
\<close>

lemma decide_scalar_delta_raises:
  assumes "get_versions (user_registry w uid) \<noteq> []"
    and "sel_mode (select_best_version w (get_versions (user_registry w uid)) tgt)
           \<noteq> Some ''RECORDED''"
    and "get_latest_version (user_registry w uid) = Some bv"
    and "embedding_path bv = Some path" and "path \<noteq> []"
    and "resolve_base_age w (user_registry w uid) bv = Some a"
    and "classify_age_relation w a tgt \<noteq> ''same''"
    and "np_load w path = Inr raw"
    and "load_age_deltas w = Some ds"
    and "map_of ds (delta_key_of (classify_age_relation w a tgt)) = Some (Scalar x)"
  shows "decide_playback_mode w uid tgt = Inl IndexError"
proof -
  from assms(10) have "ds \<noteq> []" by auto
  with assms show ?thesis
    unfolding decide_playback_mode_def Let_def by simp
qed

subsection \<open>Interpolation strength\<close>

lemma alpha_demo_15: "py_round (alpha_of 15 40) 2 = round_to_double (62/100)"
  by code_simp

lemma alpha_demo_tie: "round_to_double (62/100) \<noteq> min (of_int \<bar>15 - 40\<bar> / 40) 1"
  by code_simp

text \<open>
  Claim C3, as stated, fails: the returned \<^verbatim>\<open>alpha\<close> is rounded to two decimals. With
  a base age of 15 and a target age of 40 the decision is AGED, the interpolation
  strength is 25/40 = 0.625, and the \<^verbatim>\<open>alpha\<close> field holds the double 0.62.
\<close>

theorem alpha_unrounded_counterexample:
  "decide_playback_mode (demo_world [demo_version (Some 15)] (Inr [1]) (demo_deltas [1]))
      ''alice'' 40
     = Inr (aged_decision (demo_version (Some 15)) 15 40 ''future'' [1] [1]) \<and>
   mode (aged_decision (demo_version (Some 15)) 15 40 ''future'' [1] [1]) = ''AGED'' \<and>
   alpha (aged_decision (demo_version (Some 15)) 15 40 ''future'' [1] [1])
     = Some (round_to_double (62/100)) \<and>
   alpha (aged_decision (demo_version (Some 15)) 15 40 ''future'' [1] [1])
     \<noteq> Some (min (of_int \<bar>15 - 40\<bar> / 40) 1)"
proof -
  have "decide_playback_mode (demo_world [demo_version (Some 15)] (Inr [1]) (demo_deltas [1]))
          ''alice'' 40
        = Inr (aged_decision (demo_version (Some 15)) 15 40 ''future'' [1] [1])"
    by (rule demo_aged) simp
  then show ?thesis
    using alpha_demo_tie
    by (simp only: aged_decision_mode aged_decision_alpha alpha_demo_15 option.inject simp_thms)
qed

lemma alpha_demo_8: "py_round (alpha_of 8 40) 2 = round_to_double (8/10)"
  by code_simp

text \<open>
  Claim C3, amended. Whenever \<^verbatim>\<open>decide_playback_mode\<close> returns a decision of mode
  AGED, its \<^verbatim>\<open>alpha\<close> field is \<^verbatim>\<open>min(|base_age - target_age| / 40.0, 1.0)\<close>, computed
  in doubles, rounded to two decimals by \<^verbatim>\<open>round\<close> (the double nearest to a multiple
  of one hundredth within half a hundredth of it), where base_age is the resolved age of
  the latest version; a base age of 8 with a target age of 40 gives the double 0.8, and
  an age distance of 40 years or more gives 1.
\<close>

theorem decide_aged_alpha:
  assumes "decide_playback_mode w uid tgt = Inr d" and "mode d = ''AGED''"
  shows "\<exists>bv a x. get_latest_version (user_registry w uid) = Some bv \<and>
           resolve_base_age w (user_registry w uid) bv = Some a \<and>
           alpha d = Some x \<and>
           x = py_round (min (fdiv (round_to_double (of_int \<bar>a - tgt\<bar>)) 40) 1) 2 \<and>
           rounded_to 2 (min (fdiv (round_to_double (of_int \<bar>a - tgt\<bar>)) 40) 1) x \<and>
           (a = 8 \<and> tgt = 40 \<longrightarrow> x = round_to_double (8/10)) \<and>
           (40 \<le> \<bar>a - tgt\<bar> \<longrightarrow> x = 1)"
proof -
  from decide_aged_inversion[OF assms] obtain bv a raw delta where
    l: "get_latest_version (user_registry w uid) = Some bv" and
    r: "resolve_base_age w (user_registry w uid) bv = Some a" and
    d: "d = aged_decision bv a tgt (classify_age_relation w a tgt) raw delta"
    by blast
  have al: "alpha d = Some (py_round (alpha_of a tgt) 2)"
    by (simp add: d aged_decision_alpha)
  have e: "a = 8 \<and> tgt = 40 \<longrightarrow> py_round (alpha_of a tgt) 2 = round_to_double (8/10)"
    using alpha_demo_8 by blast
  have c: "40 \<le> \<bar>a - tgt\<bar> \<longrightarrow> py_round (alpha_of a tgt) 2 = 1"
    by (simp add: alpha_of_capped py_round_one)
  have p: "rounded_to 2 (alpha_of a tgt) (py_round (alpha_of a tgt) 2)"
    by (rule py_round_rounded)
  from l r al e c p show ?thesis
    unfolding alpha_of_def by blast
qed

theorem decide_aged_alpha_witness:
  "decide_playback_mode (demo_world [demo_version (Some 8)] (Inr [1]) (demo_deltas [1]))
      ''alice'' 40
     = Inr (aged_decision (demo_version (Some 8)) 8 40 ''future'' [1] [1]) \<and>
   mode (aged_decision (demo_version (Some 8)) 8 40 ''future'' [1] [1]) = ''AGED'' \<and>
   alpha (aged_decision (demo_version (Some 8)) 8 40 ''future'' [1] [1])
     = Some (round_to_double (8/10))"
proof -
  have h1: "decide_playback_mode (demo_world [demo_version (Some 8)] (Inr [1]) (demo_deltas [1]))
              ''alice'' 40
            = Inr (aged_decision (demo_version (Some 8)) 8 40 ''future'' [1] [1])"
    by (rule demo_aged) simp
  have h2: "mode (aged_decision (demo_version (Some 8)) 8 40 ''future'' [1] [1]) = ''AGED''"
    by (rule aged_decision_mode)
  from decide_aged_alpha[OF h1 h2] obtain a x where
    r: "resolve_base_age (demo_world [demo_version (Some 8)] (Inr [1]) (demo_deltas [1]))
          (user_registry (demo_world [demo_version (Some 8)] (Inr [1]) (demo_deltas [1])) ''alice'')
          (demo_version (Some 8)) = Some a" and
    x: "alpha (aged_decision (demo_version (Some 8)) 8 40 ''future'' [1] [1]) = Some x" and
    e: "a = 8 \<and> (40::int) = 40 \<longrightarrow> x = round_to_double (8/10)"
    by auto
  from r have "a = 8" by (simp add: demo_resolve_stored)
  with e x h1 h2 show ?thesis by simp
qed

subsection \<open>Base age\<close>

text \<open>
  Claim C5. The age derived from the date of birth and the recording date is the
  difference of the years, less one when the recording's (month, day) precedes the
  birthday's, and it is unresolved (\<open>None\<close>) outside 0 to 120. For a birth date of
  1990-03-15, a recording of 2024-03-14 derives 33 and a recording of 2024-03-15
  derives 34.
\<close>

theorem calculate_age_derivation:
  "dob \<noteq> [] \<Longrightarrow> strp dob = Some birth \<Longrightarrow>
   calculate_age strp (Some dob) (Some dt) = spec_derived_age birth (dt_date dt) \<and>
   (\<forall>age. calculate_age strp (Some dob) (Some dt) = Some age \<longrightarrow> 0 \<le> age \<and> age \<le> 120) \<and>
   (birth = \<lparr>year = 1990, month = 3, day = 15\<rparr> \<and>
    dt_date dt = \<lparr>year = 2024, month = 3, day = 14\<rparr> \<longrightarrow>
      calculate_age strp (Some dob) (Some dt) = Some 33) \<and>
   (birth = \<lparr>year = 1990, month = 3, day = 15\<rparr> \<and>
    dt_date dt = \<lparr>year = 2024, month = 3, day = 15\<rparr> \<longrightarrow>
      calculate_age strp (Some dob) (Some dt) = Some 34)"
  by (auto simp: calculate_age_def spec_derived_age_def precedes_def Let_def split: if_splits)

theorem calculate_age_derivation_witness:
  "''1990-03-15'' \<noteq> [] \<and>
   strptime_ymd (demo_world [] (Inl FileNotFoundError) []) ''1990-03-15''
     = Some \<lparr>year = 1990, month = 3, day = 15\<rparr> \<and>
   calculate_age (strptime_ymd (demo_world [] (Inl FileNotFoundError) [])) (Some ''1990-03-15'')
     (parse_recorded_date (fromisoformat (demo_world [] (Inl FileNotFoundError) []))
        (Some ''2024-03-14T09:30:00Z'')) = Some 33 \<and>
   calculate_age (strptime_ymd (demo_world [] (Inl FileNotFoundError) [])) (Some ''1990-03-15'')
     (parse_recorded_date (fromisoformat (demo_world [] (Inl FileNotFoundError) []))
        (Some ''2024-03-15T09:30:00Z'')) = Some 34"
proof -
  have s: "strptime_ymd (demo_world [] (Inl FileNotFoundError) []) ''1990-03-15''
             = Some \<lparr>year = 1990, month = 3, day = 15\<rparr>"
    by (simp add: demo_world_def)
  have p14: "parse_recorded_date (fromisoformat (demo_world [] (Inl FileNotFoundError) []))
               (Some ''2024-03-14T09:30:00Z'')
             = Some \<lparr>dt_date = \<lparr>year = 2024, month = 3, day = 14\<rparr>,
                      dt_microseconds = 34200000000\<rparr>"
    by (simp add: parse_recorded_date_def replace_Z_def demo_world_def)
  have p15: "parse_recorded_date (fromisoformat (demo_world [] (Inl FileNotFoundError) []))
               (Some ''2024-03-15T09:30:00Z'')
             = Some \<lparr>dt_date = \<lparr>year = 2024, month = 3, day = 15\<rparr>,
                      dt_microseconds = 34200000000\<rparr>"
    by (simp add: parse_recorded_date_def replace_Z_def demo_world_def)
  have n: "''1990-03-15'' \<noteq> []" by simp
  have a: "calculate_age (strptime_ymd (demo_world [] (Inl FileNotFoundError) []))
             (Some ''1990-03-15'')
             (Some \<lparr>dt_date = \<lparr>year = 2024, month = 3, day = 14\<rparr>,
                     dt_microseconds = 34200000000\<rparr>) = Some 33"
    using calculate_age_derivation[where strp = "strptime_ymd (demo_world [] (Inl FileNotFoundError) [])"
      and dob = "''1990-03-15''" and birth = "\<lparr>year = 1990, month = 3, day = 15\<rparr>"
      and dt = "\<lparr>dt_date = \<lparr>year = 2024, month = 3, day = 14\<rparr>, dt_microseconds = 34200000000\<rparr>",
      OF n s]
    by (elim conjE) simp
  have b: "calculate_age (strptime_ymd (demo_world [] (Inl FileNotFoundError) []))
             (Some ''1990-03-15'')
             (Some \<lparr>dt_date = \<lparr>year = 2024, month = 3, day = 15\<rparr>,
                     dt_microseconds = 34200000000\<rparr>) = Some 34"
    using calculate_age_derivation[where strp = "strptime_ymd (demo_world [] (Inl FileNotFoundError) [])"
      and dob = "''1990-03-15''" and birth = "\<lparr>year = 1990, month = 3, day = 15\<rparr>"
      and dt = "\<lparr>dt_date = \<lparr>year = 2024, month = 3, day = 15\<rparr>, dt_microseconds = 34200000000\<rparr>",
      OF n s]
    by (elim conjE) simp
  show ?thesis
    unfolding p14 p15 using n s a b by (intro conjI)
qed

lemma stored_age_never_missing:
  assumes "get_latest_version (user_registry w uid) = Some bv"
    and "age_at_recording bv = Some a"
    and "decide_playback_mode w uid tgt = Inr d"
  shows "reason d \<noteq> ''missing_base_age_fallback_recorded''"
  using assms
  unfolding decide_playback_mode_def Let_def
  by (auto simp: mk_decision_def resolve_base_age_def delta_key_of_def
      split: if_splits option.splits sum.splits pyexn.splits ndarray.splits)

text \<open>
  Claim C10. The 0 to 120 check applies to derived ages only. A stored
  \<^verbatim>\<open>age_at_recording\<close> is the base age whatever its value, negative or above 120
  included: the decision is then never the \<^verbatim>\<open>missing_base_age_fallback_recorded\<close>
  fallback, and with a relation other than \<^verbatim>\<open>same\<close>, a readable embedding and a
  delta of its dimension the decision is AGED, with \<^verbatim>\<open>alpha\<close> 1 when the age distance
  is 40 years or more.
\<close>

theorem stored_age_not_range_checked:
  assumes "age_at_recording bv = Some a"
  shows "resolve_base_age w (user_registry w uid) bv = Some a \<and>
         (get_latest_version (user_registry w uid) = Some bv \<longrightarrow>
            (\<forall>d. decide_playback_mode w uid tgt = Inr d \<longrightarrow>
                 reason d \<noteq> ''missing_base_age_fallback_recorded'')) \<and>
         (get_versions (user_registry w uid) \<noteq> [] \<and>
          sel_mode (select_best_version w (get_versions (user_registry w uid)) tgt)
            \<noteq> Some ''RECORDED'' \<and>
          get_latest_version (user_registry w uid) = Some bv \<and>
          embedding_path bv = Some path \<and> path \<noteq> [] \<and>
          classify_age_relation w a tgt \<noteq> ''same'' \<and>
          np_load w path = Inr (Vector raw) \<and>
          load_age_deltas w = Some ds \<and>
          map_of ds (delta_key_of (classify_age_relation w a tgt)) = Some (Vector delta) \<and>
          length delta = length raw \<longrightarrow>
            decide_playback_mode w uid tgt =
              Inr (aged_decision bv a tgt (classify_age_relation w a tgt) raw delta) \<and>
            mode (aged_decision bv a tgt (classify_age_relation w a tgt) raw delta) = ''AGED'' \<and>
            (40 \<le> \<bar>a - tgt\<bar> \<longrightarrow>
               alpha (aged_decision bv a tgt (classify_age_relation w a tgt) raw delta) = Some 1))"
proof -
  have r: "resolve_base_age w (user_registry w uid) bv = Some a"
    using assms by (simp add: resolve_base_age_def)
  have c: "40 \<le> \<bar>a - tgt\<bar> \<longrightarrow> alpha (aged_decision bv a tgt rel raw delta) = Some 1" for rel
    by (simp add: aged_decision_alpha alpha_of_capped py_round_one)
  show ?thesis
    using r aged_decision_mode c stored_age_never_missing[OF _ assms]
      decide_aged_success[where bv = bv and a = a]
    by blast
qed

theorem stored_age_not_range_checked_witness:
  "age_at_recording (demo_version (Some 200)) = Some 200 \<and>
   decide_playback_mode (demo_world [demo_version (Some 200)] (Inr [1]) (demo_deltas [1]))
      ''alice'' 40
     = Inr (aged_decision (demo_version (Some 200)) 200 40 ''past'' [1] [-1]) \<and>
   mode (aged_decision (demo_version (Some 200)) 200 40 ''past'' [1] [-1]) = ''AGED'' \<and>
   alpha (aged_decision (demo_version (Some 200)) 200 40 ''past'' [1] [-1]) = Some 1"
  using stored_age_not_range_checked[of "demo_version (Some 200)" 200
      "demo_world [demo_version (Some 200)] (Inr [1]) (demo_deltas [1])" "''alice''" 40
      "''versions/embeddings/v1.npy''" "[1]"
      "[(''children_to_adult'', Vector [1]), (''adult_to_children'', Vector (map uminus [1]))]" "[-1]"]
  by (simp add: demo_load delta_key_of_def)

end
